theory Spec2Isabelle
  imports Complex_Main
begin

section \<open>JavaScript strings and values\<close>

text \<open>
  A \<^typ>\<open>string\<close> stands for a JavaScript string whose code units are all below 256
  (the Latin-1 range); on such strings \<open>toLowerCase\<close> and \<open>trim\<close> below are the
  built-ins of the language. A field of a parsed CSV row or of a JSON object is a
  \<^typ>\<open>string option\<close>: \<open>None\<close> is \<open>undefined\<close> (the column or key is missing).
\<close>

definition toLowerChar :: "char \<Rightarrow> char" where
  "toLowerChar c =
     (let n = (of_char c :: nat)
      in if (65 \<le> n \<and> n \<le> 90) \<or> (192 \<le> n \<and> n \<le> 214) \<or> (216 \<le> n \<and> n \<le> 222)
         then char_of (n + 32) else c)"

definition toLowerCase :: "string \<Rightarrow> string" where
  "toLowerCase s = map toLowerChar s"

definition isWhiteSpace :: "char \<Rightarrow> bool" where
  "isWhiteSpace c = ((of_char c :: nat) \<in> {9, 10, 11, 12, 13, 32, 160})"

definition trim :: "string \<Rightarrow> string" where
  "trim s = rev (dropWhile isWhiteSpace (rev (dropWhile isWhiteSpace s)))"

fun startsWith :: "string \<Rightarrow> string \<Rightarrow> bool" where
  "startsWith s [] = True"
| "startsWith [] (k # ks) = False"
| "startsWith (c # cs) (k # ks) = (c = k \<and> startsWith cs ks)"

text \<open>\<open>s.includes(k)\<close>: \<open>k\<close> occurs in \<open>s\<close> as a contiguous substring.\<close>

fun includes_js :: "string \<Rightarrow> string \<Rightarrow> bool" where
  "includes_js [] k = startsWith [] k"
| "includes_js (c # cs) k = (startsWith (c # cs) k \<or> includes_js cs k)"

text \<open>\<open>s.split(sep)\<close> where \<open>sep\<close> matches exactly one character satisfying \<open>p\<close>.\<close>

fun split_js :: "(char \<Rightarrow> bool) \<Rightarrow> string \<Rightarrow> string list" where
  "split_js p [] = [[]]"
| "split_js p (c # cs) =
     (if p c then [] # split_js p cs
      else (case split_js p cs of [] \<Rightarrow> [[c]] | w # ws \<Rightarrow> (c # w) # ws))"

text \<open>\<open>x || ''\<close> and the truthiness of a string-valued field.\<close>

definition orEmpty :: "string option \<Rightarrow> string" where
  "orEmpty x = (case x of None \<Rightarrow> [] | Some s \<Rightarrow> s)"

definition truthy :: "string option \<Rightarrow> bool" where
  "truthy x = (case x of None \<Rightarrow> False | Some s \<Rightarrow> s \<noteq> [])"

text \<open>\<open>a || b\<close> on two fields, and \<open>x || 'default'\<close>.\<close>

definition orElse :: "string option \<Rightarrow> string option \<Rightarrow> string option" where
  "orElse a b = (if truthy a then a else b)"

definition orDefault :: "string option \<Rightarrow> string \<Rightarrow> string" where
  "orDefault x d = (case x of None \<Rightarrow> d | Some s \<Rightarrow> if s = [] then d else s)"

text \<open>\<open>xs.slice(a, b)\<close> for \<open>0 \<le> a \<le> b\<close>.\<close>

definition slice :: "nat \<Rightarrow> nat \<Rightarrow> 'a list \<Rightarrow> 'a list" where
  "slice a b xs = take (b - a) (drop a xs)"

text \<open>The outcome of one promise under \<open>Promise.allSettled\<close>; a rejection carries
  \<open>reason?.message\<close>.\<close>

datatype 'a settled = Fulfilled 'a | Rejected "string option"

text \<open>
  A JavaScript number as far as the programs below look at it. The parsing of a decimal
  string into a double (\<open>parseFloat\<close>) is a parameter of every function that calls it.
\<close>

datatype jsnum = NaN | Num rat | PosInfinity | NegInfinity

text \<open>\<open>parseFloat(x)\<close> and \<open>parseInt(x)\<close> on a field: \<open>undefined\<close> parses to \<open>NaN\<close>.\<close>

definition parseField :: "(string \<Rightarrow> jsnum) \<Rightarrow> string option \<Rightarrow> jsnum" where
  "parseField parse x = (case x of None \<Rightarrow> NaN | Some s \<Rightarrow> parse s)"

fun isNaN :: "jsnum \<Rightarrow> bool" where
  "isNaN NaN = True"
| "isNaN _ = False"

fun lt_num :: "jsnum \<Rightarrow> rat \<Rightarrow> bool" where
  "lt_num (Num x) b = (x < b)"
| "lt_num NegInfinity b = True"
| "lt_num _ b = False"

fun gt_num :: "jsnum \<Rightarrow> rat \<Rightarrow> bool" where
  "gt_num (Num x) b = (x > b)"
| "gt_num PosInfinity b = True"
| "gt_num _ b = False"

section \<open>The feed row and the eligibility filters\<close>

record csvItem =
  Item :: "string option"
  Description :: "string option"
  Status :: "string option"
  MSRP :: "string option"
  ContractPrice :: "string option"
  Qty_Avail :: "string option"
  Categories :: "string option"
  ProductLine :: "string option"
  Item_Type :: "string option"

record filterCriteria =
  msrpMin :: rat
  msrpMax :: rat
  productLines :: "string list"

text \<open>The product-line check shared by \<open>ProductProcessor.filterProducts\<close> and
  \<open>ProductAnalyzer.filterProducts\<close>: \<open>productLines.some(line => ...)\<close>.\<close>

definition hasMatchingProductLine :: "filterCriteria \<Rightarrow> csvItem \<Rightarrow> bool" where
  "hasMatchingProductLine crit product =
     (let productLine = trim (toLowerCase (orEmpty (ProductLine product)))
      in list_ex (\<lambda>line. let lineLower = toLowerCase line
                         in productLine = lineLower \<or> includes_js productLine lineLower)
           (productLines crit))"

text \<open>The callback of \<open>ProductProcessor.filterProducts\<close>, check by check.\<close>

definition keepProduct :: "(string \<Rightarrow> jsnum) \<Rightarrow> filterCriteria \<Rightarrow> csvItem \<Rightarrow> bool" where
  "keepProduct parseFloat crit product =
     (let status = trim (toLowerCase (orEmpty (Status product)))
      in if status = ''discontinued'' then False
      else let msrp = parseField parseFloat (ContractPrice product)
      in if isNaN msrp \<or> lt_num msrp (msrpMin crit) \<or> gt_num msrp (msrpMax crit) then False
      else let productLine = trim (toLowerCase (orEmpty (ProductLine product)))
      in if \<not> hasMatchingProductLine crit product then False
      else let categories = toLowerCase (orEmpty (Categories product))
      in if includes_js categories ''finding'' \<or> includes_js categories ''mounting'' then False
      else let itemType = toLowerCase (orEmpty (Item_Type product))
      in if includes_js itemType ''finding'' \<or> includes_js itemType ''mounting'' then False
      else let title = toLowerCase (orEmpty (Description product))
      in if includes_js title ''engraveable'' then False
      else if includes_js productLine ''personalized'' then False
      else if includes_js categories ''personalized'' then False
      else if \<not> truthy (Item product) \<or> \<not> truthy (Description product) then False
      else True)"

definition filterProducts ::
  "(string \<Rightarrow> jsnum) \<Rightarrow> filterCriteria \<Rightarrow> csvItem list \<Rightarrow> csvItem list" where
  "filterProducts parseFloat crit products = filter (keepProduct parseFloat crit) products"

text \<open>The callback of \<open>ProductAnalyzer.filterProducts\<close>.\<close>

definition analyzerKeepProduct ::
  "(string \<Rightarrow> jsnum) \<Rightarrow> filterCriteria \<Rightarrow> csvItem \<Rightarrow> bool" where
  "analyzerKeepProduct parseFloat crit product =
     (let msrp = parseField parseFloat (ContractPrice product)
      in if isNaN msrp \<or> lt_num msrp (msrpMin crit) \<or> gt_num msrp (msrpMax crit) then False
      else if \<not> hasMatchingProductLine crit product then False
      else if \<not> truthy (Item product) \<or> \<not> truthy (Description product) then False
      else True)"

definition analyzerFilterProducts ::
  "(string \<Rightarrow> jsnum) \<Rightarrow> filterCriteria \<Rightarrow> csvItem list \<Rightarrow> csvItem list" where
  "analyzerFilterProducts parseFloat crit products =
     filter (analyzerKeepProduct parseFloat crit) products"

text \<open>
  The category-line policy in the words of the specification: after case-folding and
  trimming, the label equals a configured line, or is contained in one, or contains one.
\<close>

definition lineMatches_spec :: "filterCriteria \<Rightarrow> csvItem \<Rightarrow> bool" where
  "lineMatches_spec crit product =
     (let label = trim (toLowerCase (orEmpty (ProductLine product)))
      in list_ex (\<lambda>line. let l = trim (toLowerCase line)
                         in label = l \<or> includes_js l label \<or> includes_js label l)
           (productLines crit))"

definition emptyItem :: csvItem where
  "emptyItem = \<lparr>Item = None, Description = None, Status = None, MSRP = None,
     ContractPrice = None, Qty_Avail = None, Categories = None, ProductLine = None,
     Item_Type = None\<rparr>"


section \<open>ShopifyClient: the category vocabulary and the taxonomy resolver\<close>

text \<open>\<open>this.categoryMap\<close>, in insertion order (the keys are pairwise distinct, so
  \<open>has\<close>/\<open>get\<close> are \<^const>\<open>map_of\<close> and \<open>entries()\<close> is the list itself).\<close>

definition categoryMap :: "(string \<times> string) list" where
  "categoryMap =
   [(''anklets'', ''gid://shopify/TaxonomyCategory/aa-6-1''),
    (''anklet'', ''gid://shopify/TaxonomyCategory/aa-6-1''),
    (''body jewelry'', ''gid://shopify/TaxonomyCategory/aa-6-2''),
    (''body'', ''gid://shopify/TaxonomyCategory/aa-6-2''),
    (''bracelets'', ''gid://shopify/TaxonomyCategory/aa-6-3''),
    (''bracelet'', ''gid://shopify/TaxonomyCategory/aa-6-3''),
    (''brooches'', ''gid://shopify/TaxonomyCategory/aa-6-4''),
    (''brooch'', ''gid://shopify/TaxonomyCategory/aa-6-4''),
    (''lapel pins'', ''gid://shopify/TaxonomyCategory/aa-6-4''),
    (''lapel pin'', ''gid://shopify/TaxonomyCategory/aa-6-4''),
    (''charms'', ''gid://shopify/TaxonomyCategory/aa-6-5''),
    (''charm'', ''gid://shopify/TaxonomyCategory/aa-6-5''),
    (''pendants'', ''gid://shopify/TaxonomyCategory/aa-6-5''),
    (''pendant'', ''gid://shopify/TaxonomyCategory/aa-6-5''),
    (''earrings'', ''gid://shopify/TaxonomyCategory/aa-6-6''),
    (''earring'', ''gid://shopify/TaxonomyCategory/aa-6-6''),
    (''jewelry sets'', ''gid://shopify/TaxonomyCategory/aa-6-7''),
    (''jewelry set'', ''gid://shopify/TaxonomyCategory/aa-6-7''),
    (''sets'', ''gid://shopify/TaxonomyCategory/aa-6-7''),
    (''set'', ''gid://shopify/TaxonomyCategory/aa-6-7''),
    (''necklaces'', ''gid://shopify/TaxonomyCategory/aa-6-8''),
    (''necklace'', ''gid://shopify/TaxonomyCategory/aa-6-8''),
    (''chain necklaces'', ''gid://shopify/TaxonomyCategory/aa-6-8''),
    (''chain necklace'', ''gid://shopify/TaxonomyCategory/aa-6-8''),
    (''rings'', ''gid://shopify/TaxonomyCategory/aa-6-9''),
    (''ring'', ''gid://shopify/TaxonomyCategory/aa-6-9''),
    (''smart watches'', ''gid://shopify/TaxonomyCategory/aa-6-12''),
    (''smart watch'', ''gid://shopify/TaxonomyCategory/aa-6-12''),
    (''watch accessories'', ''gid://shopify/TaxonomyCategory/aa-6-10''),
    (''watch accessory'', ''gid://shopify/TaxonomyCategory/aa-6-10''),
    (''watch bands'', ''gid://shopify/TaxonomyCategory/aa-6-10-1''),
    (''watch band'', ''gid://shopify/TaxonomyCategory/aa-6-10-1''),
    (''watch stickers'', ''gid://shopify/TaxonomyCategory/aa-6-10-2''),
    (''watch decals'', ''gid://shopify/TaxonomyCategory/aa-6-10-2''),
    (''watch stickers & decals'', ''gid://shopify/TaxonomyCategory/aa-6-10-2''),
    (''watch winders'', ''gid://shopify/TaxonomyCategory/aa-6-10-3''),
    (''watch winder'', ''gid://shopify/TaxonomyCategory/aa-6-10-3''),
    (''watches'', ''gid://shopify/TaxonomyCategory/aa-6-11''),
    (''watch'', ''gid://shopify/TaxonomyCategory/aa-6-11''),
    (''chains'', ''gid://shopify/TaxonomyCategory/aa-6-8''),
    (''chain'', ''gid://shopify/TaxonomyCategory/aa-6-8''),
    (''rope chains'', ''gid://shopify/TaxonomyCategory/aa-6-8''),
    (''rope chain'', ''gid://shopify/TaxonomyCategory/aa-6-8''),
    (''curb chains'', ''gid://shopify/TaxonomyCategory/aa-6-8''),
    (''curb chain'', ''gid://shopify/TaxonomyCategory/aa-6-8''),
    (''cable chains'', ''gid://shopify/TaxonomyCategory/aa-6-8''),
    (''cable chain'', ''gid://shopify/TaxonomyCategory/aa-6-8'')]"

definition defaultJewelryCategory :: string where
  "defaultJewelryCategory = ''gid://shopify/TaxonomyCategory/aa-6-8''"

definition backslash :: char where
  "backslash = CHR 0x5C"

text \<open>The character class of \<open>split(/[\\\/\>\|]/)\<close>.\<close>

definition isPathSeparator :: "char \<Rightarrow> bool" where
  "isPathSeparator c = (c = backslash \<or> c = CHR ''/'' \<or> c = CHR ''>'' \<or> c = CHR ''|'')"

text \<open>The first entry of the vocabulary, in iteration order, whose keyword satisfies
  \<open>hit\<close>: the \<open>for (const [keyword, categoryId] of this.categoryMap.entries())\<close> loops.\<close>

fun firstKeyword :: "(string \<Rightarrow> bool) \<Rightarrow> (string \<times> string) list \<Rightarrow> string option" where
  "firstKeyword hit [] = None"
| "firstKeyword hit ((keyword, categoryId) # entries) =
     (if hit keyword then Some categoryId else firstKeyword hit entries)"

text \<open>The loop over \<open>categoryTerms.reverse()\<close>; the argument is the reversed list.\<close>

fun matchTerms :: "string list \<Rightarrow> string option" where
  "matchTerms [] = None"
| "matchTerms (term # terms) =
     (case map_of categoryMap term of
        Some categoryId \<Rightarrow> Some categoryId
      | None \<Rightarrow>
         (case firstKeyword (\<lambda>keyword. includes_js term keyword \<or> includes_js keyword term)
                 categoryMap of
            Some categoryId \<Rightarrow> Some categoryId
          | None \<Rightarrow> matchTerms terms))"

definition cleanPath_of :: "string \<Rightarrow> string" where
  "cleanPath_of categoryPath = filter (\<lambda>c. c \<noteq> backslash) (toLowerCase (trim categoryPath))"

definition categoryTerms_of :: "string \<Rightarrow> string list" where
  "categoryTerms_of cleanPath =
     filter (\<lambda>term. term \<noteq> []) (map trim (split_js isPathSeparator cleanPath))"

definition findBestCategoryMatch :: "string \<Rightarrow> string option" where
  "findBestCategoryMatch categoryPath =
     (if categoryPath = [] then None
      else let cleanPath = cleanPath_of categoryPath;
               categoryTerms = categoryTerms_of cleanPath
           in (case matchTerms (rev categoryTerms) of
                 Some categoryId \<Rightarrow> Some categoryId
               | None \<Rightarrow> firstKeyword (\<lambda>keyword. includes_js cleanPath keyword) categoryMap))"

fun firstCategoryMatch :: "string list \<Rightarrow> string option" where
  "firstCategoryMatch [] = None"
| "firstCategoryMatch (categoryPath # categories) =
     (case findBestCategoryMatch categoryPath of
        Some categoryId \<Rightarrow>
          (if categoryId \<noteq> [] then Some categoryId else firstCategoryMatch categories)
      | None \<Rightarrow> firstCategoryMatch categories)"

definition getCategoryId :: "csvItem \<Rightarrow> string" where
  "getCategoryId csvItem =
     (if \<not> truthy (Categories csvItem) then defaultJewelryCategory
      else (case firstCategoryMatch (split_js (\<lambda>c. c = CHR '';'') (orEmpty (Categories csvItem))) of
              Some categoryId \<Rightarrow> categoryId
            | None \<Rightarrow> defaultJewelryCategory))"

text \<open>
  The resolver for one candidate path in the words of the specification: the four
  separator characters split the normalised path, the segments are tried leaf first,
  and the whole normalised path is searched last.
\<close>

definition resolvePath_spec :: "string \<Rightarrow> string option" where
  "resolvePath_spec categoryPath =
     (let normalized = toLowerCase (trim categoryPath);
          segments = filter (\<lambda>term. term \<noteq> []) (map trim (split_js isPathSeparator normalized))
      in (case matchTerms (rev segments) of
            Some categoryId \<Rightarrow> Some categoryId
          | None \<Rightarrow> firstKeyword (\<lambda>keyword. includes_js normalized keyword) categoryMap))"


section \<open>ShopifyClient: remote records, the lookup index and the diff\<close>

text \<open>
  A field of a remote JSON object that the code tells apart from \<open>null\<close>: the key is
  missing (\<open>undefined\<close>), holds \<open>null\<close>, or holds a value.
\<close>

datatype 'a json = JUndefined | JNull | JValue 'a

text \<open>
  The remote records. For \<open>sku\<close>, \<open>price\<close>, \<open>status\<close> and \<open>variants\<close> the code
  only tests truthiness, applies \<open>?.\<close> or compares with a string, none of which tells
  \<open>null\<close> from \<open>undefined\<close>: there \<open>None\<close> stands for both. The inventory count is
  compared with \<open>undefined\<close> itself, so it keeps the three cases.
\<close>

record variant =
  variant_id :: nat
  sku :: "string option"
  price :: "string option"
  inventory_quantity :: "int json"

record shopifyProduct =
  product_id :: nat
  title :: string
  status :: "string option"
  variants :: "variant list option"

text \<open>The index built at the start of \<open>processProductsFromCSV\<close>: two \<open>Map\<close>s, filled
  by \<open>existingProducts.forEach\<close>; a later \<open>set\<close> of the same key overwrites.\<close>

record lookupIndex =
  existingProductsBySku :: "string \<rightharpoonup> shopifyProduct"
  existingProductsByTitle :: "string \<rightharpoonup> shopifyProduct"

definition indexVariant ::
  "shopifyProduct \<Rightarrow> variant \<Rightarrow> (string \<rightharpoonup> shopifyProduct) \<Rightarrow> (string \<rightharpoonup> shopifyProduct)" where
  "indexVariant product variant bySku =
     (case sku variant of
        None \<Rightarrow> bySku
      | Some s \<Rightarrow> if s = [] then bySku else bySku(toLowerCase s \<mapsto> product))"

definition indexProduct :: "shopifyProduct \<Rightarrow> lookupIndex \<Rightarrow> lookupIndex" where
  "indexProduct product idx =
     \<lparr>existingProductsBySku =
        (case variants product of
           None \<Rightarrow> existingProductsBySku idx
         | Some vs \<Rightarrow> fold (indexVariant product) vs (existingProductsBySku idx)),
      existingProductsByTitle =
        (existingProductsByTitle idx)(toLowerCase (title product) \<mapsto> product)\<rparr>"

definition buildIndex :: "shopifyProduct list \<Rightarrow> lookupIndex" where
  "buildIndex existingProducts =
     fold indexProduct existingProducts
       \<lparr>existingProductsBySku = Map.empty, existingProductsByTitle = Map.empty\<rparr>"

text \<open>The lookup at the head of the \<open>csvData.forEach\<close> callback of
  \<open>categorizeProducts\<close>: by SKU first, then by title.\<close>

definition findExistingProduct ::
  "(string \<rightharpoonup> shopifyProduct) \<Rightarrow> (string \<rightharpoonup> shopifyProduct) \<Rightarrow> csvItem
     \<Rightarrow> shopifyProduct option" where
  "findExistingProduct bySku byTitle csvItem =
     (let sku = map_option toLowerCase (Item csvItem);
          title = toLowerCase (orEmpty (orElse (Description csvItem) (Item csvItem)))
      in if truthy sku \<and> bySku (orEmpty sku) \<noteq> None then bySku (orEmpty sku)
         else if title \<noteq> [] \<and> byTitle title \<noteq> None then byTitle title
         else None)"

text \<open>
  What the client takes from outside: the number parsing and printing of the language,
  the payload builder and the two remote calls. A remote call or the builder either
  returns (\<open>Inr\<close>) or throws an error with a message (\<open>Inl\<close>). The client is
  initialised, so the \<open>if (!this.initialized)\<close> guards do nothing.
\<close>

record variantUpdate =
  vu_id :: nat
  vu_price :: "string option"
  vu_inventory_quantity :: "jsnum option"

record updateData =
  ud_id :: nat
  ud_title :: "string option"
  ud_status :: "string option"
  ud_variants :: "variantUpdate list option"

record 'p shopifyEnv =
  jsParseFloat :: "string \<Rightarrow> jsnum"
  jsParseInt :: "string \<Rightarrow> jsnum"
  jsToFixed2 :: "jsnum \<Rightarrow> string"
  mapCSVToShopifyProduct :: "csvItem \<Rightarrow> string + 'p"
  createProduct :: "'p \<Rightarrow> string + shopifyProduct"
  updateProduct :: "nat \<Rightarrow> updateData \<Rightarrow> string + shopifyProduct"

text \<open>The characters that \<open>replace(/[^\d.-]/g, '')\<close> keeps.\<close>

definition isPriceChar :: "char \<Rightarrow> bool" where
  "isPriceChar c =
     ((48 \<le> (of_char c :: nat) \<and> (of_char c :: nat) \<le> 57) \<or> c = CHR ''.'' \<or> c = CHR ''-'')"

definition parsePrice :: "'p shopifyEnv \<Rightarrow> string option \<Rightarrow> string" where
  "parsePrice env priceStr =
     (if \<not> truthy priceStr then ''0.00''
      else let price = jsParseFloat env (filter isPriceChar (orEmpty priceStr))
           in if isNaN price then ''0.00'' else jsToFixed2 env price)"

text \<open>\<open>a !== b\<close> on numbers: \<open>NaN\<close> differs from everything, itself included.\<close>

definition strictNeq :: "jsnum \<Rightarrow> jsnum \<Rightarrow> bool" where
  "strictNeq a b = (isNaN a \<or> isNaN b \<or> a \<noteq> b)"

text \<open>\<open>existingProduct.variants?.[0]\<close>.\<close>

definition firstVariant :: "shopifyProduct \<Rightarrow> variant option" where
  "firstVariant existingProduct =
     (case variants existingProduct of
        None \<Rightarrow> None
      | Some [] \<Rightarrow> None
      | Some (v # _) \<Rightarrow> Some v)"

text \<open>\<open>existingProduct.variants?.[0]?.inventory_quantity\<close>.\<close>

definition firstInventory :: "shopifyProduct \<Rightarrow> int json" where
  "firstInventory existingProduct =
     (case firstVariant existingProduct of
        None \<Rightarrow> JUndefined
      | Some v \<Rightarrow> inventory_quantity v)"

text \<open>\<open>parseInt(csvItem.Qty_Avail) || 0\<close>.\<close>

definition csvInventory_of :: "'p shopifyEnv \<Rightarrow> csvItem \<Rightarrow> jsnum" where
  "csvInventory_of env csvItem =
     (let n = parseField (jsParseInt env) (Qty_Avail csvItem)
      in if isNaN n \<or> n = Num 0 then Num 0 else n)"

definition csvTitle_of :: "csvItem \<Rightarrow> string" where
  "csvTitle_of csvItem =
     orDefault (orElse (Description csvItem) (Item csvItem)) ''Untitled Product''"

definition csvStatus_of :: "csvItem \<Rightarrow> string" where
  "csvStatus_of csvItem = (if Status csvItem = Some ''Active'' then ''active'' else ''draft'')"

record updateCheck =
  hasChanges :: bool
  changes :: "string list"

definition pushChange :: "string \<Rightarrow> updateCheck \<Rightarrow> updateCheck" where
  "pushChange tag r = \<lparr>hasChanges = True, changes = changes r @ [tag]\<rparr>"

text \<open>
  \<open>doesProductNeedUpdate\<close>. No statement of its \<open>try\<close> block throws on a row and a
  remote record of the types above (every property read is on an object or behind
  \<open>?.\<close>), so the \<open>catch\<close> branch has no input and the function always returns.
  The inventory guard is \<open>existingInventory !== undefined\<close>: a \<open>null\<close> count passes
  it, and \<open>null !== csvInventory\<close> holds for every number.
\<close>

definition doesProductNeedUpdate :: "'p shopifyEnv \<Rightarrow> csvItem \<Rightarrow> shopifyProduct \<Rightarrow> updateCheck" where
  "doesProductNeedUpdate env csvItem existingProduct =
     (let r0 = \<lparr>hasChanges = False, changes = []\<rparr>;
          csvTitle = csvTitle_of csvItem;
          r1 = (if title existingProduct \<noteq> csvTitle then pushChange ''title'' r0 else r0);
          csvPrice = parsePrice env (orElse (MSRP csvItem) (ContractPrice csvItem));
          existingPrice = Option.bind (firstVariant existingProduct) price;
          r2 = (if truthy existingPrice
                   \<and> strictNeq (jsParseFloat env (orEmpty existingPrice)) (jsParseFloat env csvPrice)
                then pushChange ''price'' r1 else r1);
          csvInventory = csvInventory_of env csvItem;
          existingInventory = firstInventory existingProduct;
          r3 = (case existingInventory of
                  JUndefined \<Rightarrow> r2
                | JNull \<Rightarrow> pushChange ''inventory'' r2
                | JValue q \<Rightarrow>
                    if Num (of_int q) \<noteq> csvInventory then pushChange ''inventory'' r2 else r2);
          csvStatus = csvStatus_of csvItem;
          r4 = (if status existingProduct \<noteq> Some csvStatus then pushChange ''status'' r3 else r3)
      in r4)"

record categorized =
  productsToCreate :: "csvItem list"
  productsToUpdate :: "(csvItem \<times> shopifyProduct \<times> string list) list"

text \<open>The body of the \<open>csvData.forEach\<close> callback of \<open>categorizeProducts\<close>.\<close>

definition categorizeStep ::
  "'p shopifyEnv \<Rightarrow> (string \<rightharpoonup> shopifyProduct) \<Rightarrow> (string \<rightharpoonup> shopifyProduct) \<Rightarrow> bool
     \<Rightarrow> csvItem \<Rightarrow> categorized \<Rightarrow> categorized" where
  "categorizeStep env bySku byTitle enableUpdates csvItem acc =
     (case findExistingProduct bySku byTitle csvItem of
        Some existingProduct \<Rightarrow>
          (if enableUpdates then
             (let needsUpdate = doesProductNeedUpdate env csvItem existingProduct
              in if hasChanges needsUpdate
                 then acc\<lparr>productsToUpdate :=
                        productsToUpdate acc @ [(csvItem, existingProduct, changes needsUpdate)]\<rparr>
                 else acc)
           else acc)
      | None \<Rightarrow> acc\<lparr>productsToCreate := productsToCreate acc @ [csvItem]\<rparr>)"

definition categorizeProducts ::
  "'p shopifyEnv \<Rightarrow> csvItem list \<Rightarrow> (string \<rightharpoonup> shopifyProduct) \<Rightarrow> (string \<rightharpoonup> shopifyProduct)
     \<Rightarrow> bool \<Rightarrow> categorized" where
  "categorizeProducts env csvData bySku byTitle enableUpdates =
     fold (categorizeStep env bySku byTitle enableUpdates) csvData
       \<lparr>productsToCreate = [], productsToUpdate = []\<rparr>"

text \<open>
  The diff policy in the words of the specification, for the inventory count: a count
  absent on either side is taken as 0, and the field has changed when the two differ.
\<close>

definition inventoryDiffers_spec :: "'p shopifyEnv \<Rightarrow> csvItem \<Rightarrow> shopifyProduct \<Rightarrow> bool" where
  "inventoryDiffers_spec env csvItem existingProduct =
     (csvInventory_of env csvItem \<noteq>
        (case firstInventory existingProduct of
           JUndefined \<Rightarrow> Num 0
         | JNull \<Rightarrow> Num 0
         | JValue q \<Rightarrow> Num (of_int q)))"

section \<open>ShopifyClient: executing a batch\<close>

datatype workItem = CreateItem csvItem | UpdateItem csvItem shopifyProduct "string list"

fun workCsvItem :: "workItem \<Rightarrow> csvItem" where
  "workCsvItem (CreateItem csvItem) = csvItem"
| "workCsvItem (UpdateItem csvItem existingProduct chs) = csvItem"

text \<open>The \<open>product\<close> of a result: the payload in a dry run, the remote record otherwise.\<close>

datatype 'p productValue = Payload 'p | Stored shopifyProduct

text \<open>The object an item resolves to: \<open>{success: true, type, product}\<close> or
  \<open>{success: false, error, csvItem}\<close>.\<close>

datatype 'p opValue = OpSuccess string "'p productValue" | OpFailure string string

definition buildUpdateData ::
  "'p shopifyEnv \<Rightarrow> csvItem \<Rightarrow> shopifyProduct \<Rightarrow> string list \<Rightarrow> updateData" where
  "buildUpdateData env csvItem existingProduct chs =
     \<lparr>ud_id = product_id existingProduct,
      ud_title = (if ''title'' \<in> set chs then Some (csvTitle_of csvItem) else None),
      ud_status = (if ''status'' \<in> set chs then Some (csvStatus_of csvItem) else None),
      ud_variants =
        (if ''price'' \<in> set chs \<or> ''inventory'' \<in> set chs then
           (case firstVariant existingProduct of
              None \<Rightarrow> None
            | Some variant \<Rightarrow>
                Some [\<lparr>vu_id = variant_id variant,
                       vu_price =
                         (if ''price'' \<in> set chs
                          then Some (parsePrice env (orElse (MSRP csvItem) (ContractPrice csvItem)))
                          else None),
                       vu_inventory_quantity =
                         (if ''inventory'' \<in> set chs then Some (csvInventory_of env csvItem)
                          else None)\<rparr>])
         else None)\<rparr>"

definition processCreateItem :: "'p shopifyEnv \<Rightarrow> csvItem \<Rightarrow> bool \<Rightarrow> string + 'p opValue" where
  "processCreateItem env csvItem dryRun =
     (case mapCSVToShopifyProduct env csvItem of
        Inl message \<Rightarrow> Inl message
      | Inr productData \<Rightarrow>
          if dryRun then Inr (OpSuccess ''dry-run-create'' (Payload productData))
          else (case createProduct env productData of
                  Inl message \<Rightarrow> Inl message
                | Inr createdProduct \<Rightarrow> Inr (OpSuccess ''created'' (Stored createdProduct))))"

definition processUpdateItem ::
  "'p shopifyEnv \<Rightarrow> csvItem \<Rightarrow> shopifyProduct \<Rightarrow> string list \<Rightarrow> bool \<Rightarrow> string + 'p opValue" where
  "processUpdateItem env csvItem existingProduct chs dryRun =
     (if dryRun then Inr (OpSuccess ''dry-run-update'' (Stored existingProduct))
      else (case updateProduct env (product_id existingProduct)
                   (buildUpdateData env csvItem existingProduct chs) of
              Inl message \<Rightarrow> Inl message
            | Inr updatedProduct \<Rightarrow> Inr (OpSuccess ''updated'' (Stored updatedProduct))))"

definition runItem :: "'p shopifyEnv \<Rightarrow> bool \<Rightarrow> workItem \<Rightarrow> string + 'p opValue" where
  "runItem env dryRun item =
     (case item of
        CreateItem csvItem \<Rightarrow> processCreateItem env csvItem dryRun
      | UpdateItem csvItem existingProduct chs \<Rightarrow>
          processUpdateItem env csvItem existingProduct chs dryRun)"

record 'p runResults =
  total :: nat
  created :: nat
  updated :: nat
  skipped :: nat
  errors :: nat
  createdProducts :: "'p productValue list"
  updatedProducts :: "'p productValue list"
  errorDetails :: "(string \<times> string) list"

text \<open>One promise of \<open>processBatchParallelWithUpdates\<close>: the \<open>async\<close> callback of
  \<open>batch.map\<close>, whose \<open>catch\<close> turns a thrown error into a failure value.\<close>

definition parallelPromise :: "'p shopifyEnv \<Rightarrow> bool \<Rightarrow> workItem \<Rightarrow> 'p opValue settled" where
  "parallelPromise env dryRun item =
     (case runItem env dryRun item of
        Inr v \<Rightarrow> Fulfilled v
      | Inl message \<Rightarrow>
          Fulfilled (OpFailure message (orDefault (Item (workCsvItem item)) ''Unknown'')))"

text \<open>The callback of \<open>batchResults.forEach\<close>: \<open>item\<close> is \<open>batch[index]\<close>.\<close>

definition recordParallel :: "workItem \<Rightarrow> 'p opValue settled \<Rightarrow> 'p runResults \<Rightarrow> 'p runResults" where
  "recordParallel item result results =
     (case result of
        Fulfilled (OpSuccess type product) \<Rightarrow>
          if type = ''created''
          then results\<lparr>created := created results + 1,
                       createdProducts := createdProducts results @ [product]\<rparr>
          else if type = ''updated''
          then results\<lparr>updated := updated results + 1,
                       updatedProducts := updatedProducts results @ [product]\<rparr>
          else results
      | Fulfilled (OpFailure error label) \<Rightarrow>
          results\<lparr>errors := errors results + 1,
                  errorDetails := errorDetails results @ [(label, error)]\<rparr>
      | Rejected reason \<Rightarrow>
          results\<lparr>errors := errors results + 1,
                  errorDetails := errorDetails results @
                    [(orDefault (Item (workCsvItem item)) ''Unknown'',
                      orDefault reason ''Promise rejected'')]\<rparr>)"

definition processBatchParallelWithUpdates ::
  "'p shopifyEnv \<Rightarrow> workItem list \<Rightarrow> 'p runResults \<Rightarrow> bool \<Rightarrow> 'p runResults" where
  "processBatchParallelWithUpdates env batch results dryRun =
     (let batchResults = map (parallelPromise env dryRun) batch
      in fold (\<lambda>(item, result). recordParallel item result) (zip batch batchResults) results)"

text \<open>The body of the \<open>for (const item of batch)\<close> loop of
  \<open>processBatchSequentialWithUpdates\<close>.\<close>

definition sequentialStep :: "'p shopifyEnv \<Rightarrow> bool \<Rightarrow> workItem \<Rightarrow> 'p runResults \<Rightarrow> 'p runResults" where
  "sequentialStep env dryRun item results =
     (case runItem env dryRun item of
        Inr (OpSuccess type product) \<Rightarrow>
          if type = ''created''
          then results\<lparr>created := created results + 1,
                       createdProducts := createdProducts results @ [product]\<rparr>
          else if type = ''updated''
          then results\<lparr>updated := updated results + 1,
                       updatedProducts := updatedProducts results @ [product]\<rparr>
          else results
      | Inr (OpFailure error label) \<Rightarrow> results
      | Inl message \<Rightarrow>
          results\<lparr>errors := errors results + 1,
                  errorDetails := errorDetails results @
                    [(orDefault (Item (workCsvItem item)) ''Unknown'', message)]\<rparr>)"

definition processBatchSequentialWithUpdates ::
  "'p shopifyEnv \<Rightarrow> workItem list \<Rightarrow> 'p runResults \<Rightarrow> bool \<Rightarrow> 'p runResults" where
  "processBatchSequentialWithUpdates env batch results dryRun =
     fold (sequentialStep env dryRun) batch results"

record runOptions =
  opt_batchSize :: nat
  opt_delayBetweenBatches :: nat
  opt_dryRun :: bool
  opt_parallelBatch :: bool
  opt_enableUpdates :: bool

text \<open>The batch loop of \<open>processProductsFromCSV\<close>
  (\<open>for (let i = 0; i < allProductsToProcess.length; i += batchSize)\<close>); it does not
  return when \<open>batchSize\<close> is 0 and there is something to process.\<close>

partial_function (option) processBatches ::
  "'p shopifyEnv \<Rightarrow> runOptions \<Rightarrow> workItem list \<Rightarrow> nat \<Rightarrow> 'p runResults \<Rightarrow> 'p runResults option" where
  "processBatches env options allProductsToProcess i results =
     (if i < length allProductsToProcess then
        (let batch = slice i (i + opt_batchSize options) allProductsToProcess;
             results' =
               (if opt_parallelBatch options \<and> \<not> opt_dryRun options
                then processBatchParallelWithUpdates env batch results (opt_dryRun options)
                else processBatchSequentialWithUpdates env batch results (opt_dryRun options))
         in processBatches env options allProductsToProcess (i + opt_batchSize options) results')
      else Some results)"

text \<open>\<open>processProductsFromCSV\<close>; \<open>shopifyProducts\<close> is the remote set the run works
  against (passed by the caller, or fetched first when the caller passes none).\<close>

definition processProductsFromCSV ::
  "'p shopifyEnv \<Rightarrow> csvItem list \<Rightarrow> shopifyProduct list \<Rightarrow> runOptions \<Rightarrow> 'p runResults option" where
  "processProductsFromCSV env csvData shopifyProducts options =
     (let results = \<lparr>total = length csvData, created = 0, updated = 0, skipped = 0, errors = 0,
                     createdProducts = [], updatedProducts = [], errorDetails = []\<rparr>;
          idx = buildIndex shopifyProducts;
          cat = categorizeProducts env csvData (existingProductsBySku idx)
                  (existingProductsByTitle idx) (opt_enableUpdates options);
          allProductsToProcess =
            map CreateItem (productsToCreate cat) @
            map (\<lambda>(csvItem, existingProduct, chs). UpdateItem csvItem existingProduct chs)
              (productsToUpdate cat)
      in processBatches env options allProductsToProcess 0 results)"

text \<open>\<open>processBatchDirect\<close>: the value of one promise, the tally, the whole batch.\<close>

datatype directValue =
  DirectSuccess string "shopifyProduct option" "string option"
| DirectFailure string string

record directResults =
  d_total :: nat
  d_created :: nat
  d_errors :: nat
  d_errorDetails :: "(string \<times> string) list"

definition directPromise :: "'p shopifyEnv \<Rightarrow> bool \<Rightarrow> csvItem \<Rightarrow> directValue settled" where
  "directPromise env dryRun csvItem =
     (if dryRun then Fulfilled (DirectSuccess ''dry-run'' None (Item csvItem))
      else (case mapCSVToShopifyProduct env csvItem of
              Inl message \<Rightarrow>
                Fulfilled (DirectFailure message (orDefault (Item csvItem) ''Unknown''))
            | Inr productData \<Rightarrow>
                (case createProduct env productData of
                   Inl message \<Rightarrow>
                     Fulfilled (DirectFailure message (orDefault (Item csvItem) ''Unknown''))
                 | Inr createdProduct \<Rightarrow>
                     Fulfilled (DirectSuccess ''created'' (Some createdProduct) (Item csvItem)))))"

definition recordDirect :: "csvItem \<Rightarrow> directValue settled \<Rightarrow> directResults \<Rightarrow> directResults" where
  "recordDirect csvItem result results =
     (case result of
        Fulfilled (DirectSuccess type product item) \<Rightarrow>
          results\<lparr>d_created := d_created results + 1\<rparr>
      | Fulfilled (DirectFailure error item) \<Rightarrow>
          results\<lparr>d_errors := d_errors results + 1,
                  d_errorDetails := d_errorDetails results @ [(item, error)]\<rparr>
      | Rejected reason \<Rightarrow>
          results\<lparr>d_errors := d_errors results + 1,
                  d_errorDetails := d_errorDetails results @
                    [(orDefault (Item csvItem) ''Unknown'',
                      orDefault reason ''Promise rejected'')]\<rparr>)"

definition processBatchDirect :: "'p shopifyEnv \<Rightarrow> csvItem list \<Rightarrow> bool \<Rightarrow> directResults" where
  "processBatchDirect env csvItems dryRun =
     (let results = \<lparr>d_total = length csvItems, d_created = 0, d_errors = 0, d_errorDetails = []\<rparr>;
          batchResults = map (directPromise env dryRun) csvItems
      in fold (\<lambda>(csvItem, result). recordDirect csvItem result) (zip csvItems batchResults)
           results)"

section \<open>ProductProcessor: batches and windows\<close>






definition shopifyExec :: "'p shopifyEnv \<Rightarrow> csvItem list \<Rightarrow> string + directResults" where
  "shopifyExec env batch = Inr (processBatchDirect env batch False)"










section \<open>Notions used to state the properties\<close>

text \<open>A remote record carries the (lower-cased) key \<open>k\<close> on one of its variants; an
  empty or missing SKU is no key.\<close>

definition hasSkuKey :: "shopifyProduct \<Rightarrow> string \<Rightarrow> bool" where
  "hasSkuKey product k =
     (case variants product of
        None \<Rightarrow> False
      | Some vs \<Rightarrow> list_ex (\<lambda>v. case sku v of None \<Rightarrow> False
                                 | Some s \<Rightarrow> s \<noteq> [] \<and> toLowerCase s = k) vs)"

text \<open>The last element of a list that satisfies a predicate: what a \<open>Map\<close> holds
  for a key after a sequence of \<open>set\<close> calls.\<close>

fun lastWith :: "('a \<Rightarrow> bool) \<Rightarrow> 'a list \<Rightarrow> 'a option" where
  "lastWith P [] = None"
| "lastWith P (x # xs) =
     (case lastWith P xs of Some y \<Rightarrow> Some y | None \<Rightarrow> if P x then Some x else None)"

text \<open>A tally with nothing recorded, and the per-item steps of the two batch
  executors (the promise of an item followed by the recording of its outcome).\<close>

definition noResults :: "'p runResults" where
  "noResults = \<lparr>total = 0, created = 0, updated = 0, skipped = 0, errors = 0,
     createdProducts = [], updatedProducts = [], errorDetails = []\<rparr>"

definition directStep :: "'p shopifyEnv \<Rightarrow> bool \<Rightarrow> csvItem \<Rightarrow> directResults \<Rightarrow> directResults" where
  "directStep env dry c r = recordDirect c (directPromise env dry c) r"

definition parallelStep :: "'p shopifyEnv \<Rightarrow> workItem \<Rightarrow> 'p runResults \<Rightarrow> 'p runResults" where
  "parallelStep env item r = recordParallel item (parallelPromise env False item) r"

definition dryStep :: "'p shopifyEnv \<Rightarrow> workItem \<Rightarrow> 'p runResults \<Rightarrow> 'p runResults" where
  "dryStep env item r = recordParallel item (parallelPromise env True item) r"

text \<open>
  The own operation of an item, as the collaborators answer it: for a row to create, the
  payload builder followed by the create call; for a row to update, the update call on the
  matched record. \<open>Inl\<close> is the error thrown, \<open>Inr\<close> the remote record returned.
\<close>

definition createOutcome :: "'p shopifyEnv \<Rightarrow> csvItem \<Rightarrow> string + shopifyProduct" where
  "createOutcome env c =
     (case mapCSVToShopifyProduct env c of
        Inl message \<Rightarrow> Inl message
      | Inr productData \<Rightarrow> createProduct env productData)"

definition workOutcome :: "'p shopifyEnv \<Rightarrow> workItem \<Rightarrow> string + shopifyProduct" where
  "workOutcome env item =
     (case item of
        CreateItem c \<Rightarrow> createOutcome env c
      | UpdateItem c existingProduct chs \<Rightarrow>
          updateProduct env (product_id existingProduct) (buildUpdateData env c existingProduct chs))"

text \<open>The action of a work item, the label an error is recorded under, and what one
  outcome contributes to the error list and to the list of stored records.\<close>

fun isCreateItem :: "workItem \<Rightarrow> bool" where
  "isCreateItem (CreateItem c) = True"
| "isCreateItem (UpdateItem c existingProduct chs) = False"

definition csvLabel :: "csvItem \<Rightarrow> string" where
  "csvLabel c = orDefault (Item c) ''Unknown''"

definition failureOf :: "string \<Rightarrow> string + 'a \<Rightarrow> (string \<times> string) list" where
  "failureOf label outcome = (case outcome of Inl message \<Rightarrow> [(label, message)] | Inr x \<Rightarrow> [])"

definition storedOf :: "string + shopifyProduct \<Rightarrow> 'p productValue list" where
  "storedOf outcome = (case outcome of Inl message \<Rightarrow> [] | Inr product \<Rightarrow> [Stored product])"

text \<open>The rows that reach the executor when updates are enabled: those with no remote
  match, and those whose match differs in a tracked field.\<close>

definition needsWork ::
  "'p shopifyEnv \<Rightarrow> (string \<rightharpoonup> shopifyProduct) \<Rightarrow> (string \<rightharpoonup> shopifyProduct) \<Rightarrow> csvItem \<Rightarrow> bool" where
  "needsWork env bySku byTitle csvItem =
     (case findExistingProduct bySku byTitle csvItem of
        None \<Rightarrow> True
      | Some existingProduct \<Rightarrow> hasChanges (doesProductNeedUpdate env csvItem existingProduct))"

section \<open>Concrete inputs\<close>

text \<open>The two category paths of the rope-chain scenario.\<close>

definition ropeChainNecklaces :: string where
  "ropeChainNecklaces =
     backslash # ''Jewelry'' @ backslash # ''Necklaces'' @ backslash # ''Chain Necklaces''
       @ backslash # ''Rope Chain Necklaces''"

definition ropeChain :: string where
  "ropeChain =
     backslash # ''Jewelry'' @ backslash # ''Chains'' @ backslash # ''Rope Chains''
       @ backslash # ''Rope Chain''"

text \<open>Two remote records and a row whose SKU matches the first and whose title matches
  the second.\<close>

definition remoteA :: shopifyProduct where
  "remoteA = \<lparr>product_id = 1, title = ''Gold Ring'', status = Some ''active'',
     variants = Some [\<lparr>variant_id = 11, sku = Some ''AB-1'', price = Some ''120.00'',
                       inventory_quantity = JValue 4\<rparr>]\<rparr>"

definition remoteB :: shopifyProduct where
  "remoteB = \<lparr>product_id = 2, title = ''Untitled Product'', status = Some ''draft'',
     variants = Some [\<lparr>variant_id = 21, sku = Some ''ZZ-9'', price = Some ''80.00'',
                       inventory_quantity = JUndefined\<rparr>]\<rparr>"

definition rowA :: csvItem where
  "rowA = emptyItem\<lparr>Item := Some ''ab-1'', Description := Some ''Untitled Product''\<rparr>"

text \<open>An environment that agrees with the language on the numbers of the rows below
  (\<open>parseFloat('120.00')\<close> is 120, \<open>(120).toFixed(2)\<close> is \<open>'120.00'\<close>,
  \<open>parseInt('5')\<close> is 5), and whose remote calls fail.\<close>

definition testEnv :: "unit shopifyEnv" where
  "testEnv = \<lparr>jsParseFloat = (\<lambda>s. if s = ''120.00'' then Num 120 else NaN),
     jsParseInt = (\<lambda>s. if s = ''5'' then Num 5 else NaN),
     jsToFixed2 = (\<lambda>n. ''120.00''),
     mapCSVToShopifyProduct = (\<lambda>c. Inr ()),
     createProduct = (\<lambda>p. Inl ''create failed''),
     updateProduct = (\<lambda>i u. Inl ''update failed'')\<rparr>"

text \<open>A remote record without an inventory count, and a row with 5 in stock.\<close>

definition remoteNoStock :: shopifyProduct where
  "remoteNoStock = \<lparr>product_id = 3, title = ''Gold Ring'', status = Some ''active'',
     variants = Some [\<lparr>variant_id = 31, sku = Some ''AB-1'', price = Some ''120.00'',
                       inventory_quantity = JUndefined\<rparr>]\<rparr>"

definition rowFive :: csvItem where
  "rowFive = emptyItem\<lparr>Item := Some ''AB-1'', Description := Some ''Gold Ring'',
     Status := Some ''Active'', MSRP := Some ''120.00'', Qty_Avail := Some ''5''\<rparr>"

text \<open>The same remote record with a \<open>null\<close> count, and the same row without a
  quantity.\<close>

definition remoteNullStock :: shopifyProduct where
  "remoteNullStock = \<lparr>product_id = 3, title = ''Gold Ring'', status = Some ''active'',
     variants = Some [\<lparr>variant_id = 31, sku = Some ''AB-1'', price = Some ''120.00'',
                       inventory_quantity = JNull\<rparr>]\<rparr>"

definition rowNoQuantity :: csvItem where
  "rowNoQuantity = emptyItem\<lparr>Item := Some ''AB-1'', Description := Some ''Gold Ring'',
     Status := Some ''Active'', MSRP := Some ''120.00''\<rparr>"

text \<open>A remote record that agrees with that row in every tracked field, and the default
  options of \<open>processProductsFromCSV\<close>.\<close>

definition remoteInStock :: shopifyProduct where
  "remoteInStock = \<lparr>product_id = 4, title = ''Gold Ring'', status = Some ''active'',
     variants = Some [\<lparr>variant_id = 41, sku = Some ''AB-1'', price = Some ''120.00'',
                       inventory_quantity = JValue 5\<rparr>]\<rparr>"

definition defaultOptions :: runOptions where
  "defaultOptions = \<lparr>opt_batchSize = 10, opt_delayBetweenBatches = 1000, opt_dryRun = False,
     opt_parallelBatch = True, opt_enableUpdates = True\<rparr>"

text \<open>Rows named by their SKU, and an environment whose payload is the SKU and whose
  create call fails for the SKU \<open>BAD\<close> only.\<close>

definition itemNamed :: "string \<Rightarrow> csvItem" where
  "itemNamed s = emptyItem\<lparr>Item := Some s\<rparr>"

definition flakyEnv :: "string shopifyEnv" where
  "flakyEnv = \<lparr>jsParseFloat = (\<lambda>s. NaN), jsParseInt = (\<lambda>s. NaN), jsToFixed2 = (\<lambda>n. ''0.00''),
     mapCSVToShopifyProduct = (\<lambda>c. Inr (orEmpty (Item c))),
     createProduct = (\<lambda>p. if p = ''BAD'' then Inl ''rejected by remote''
        else Inr \<lparr>product_id = 7, title = p, status = Some ''draft'', variants = None\<rparr>),
     updateProduct = (\<lambda>i u. Inl ''update failed'')\<rparr>"




section \<open>Facts about the string operations\<close>

lemma startsWith_iff: "startsWith s k \<longleftrightarrow> (\<exists>q. s = k @ q)"
  by (induction s k rule: startsWith.induct) auto

lemma includes_js_iff: "includes_js s k \<longleftrightarrow> (\<exists>p q. s = p @ k @ q)"
proof (induction s)
  case Nil
  show ?case by (auto simp: startsWith_iff)
next
  case (Cons c cs)
  show ?case
  proof
    assume "includes_js (c # cs) k"
    then consider "startsWith (c # cs) k" | "includes_js cs k" by auto
    then show "\<exists>p q. c # cs = p @ k @ q"
    proof cases
      case 1
      then obtain q where "c # cs = k @ q" by (auto simp: startsWith_iff)
      then have "c # cs = [] @ k @ q" by simp
      then show ?thesis by blast
    next
      case 2
      then obtain p q where "cs = p @ k @ q" using Cons.IH by auto
      then have "c # cs = (c # p) @ k @ q" by simp
      then show ?thesis by blast
    qed
  next
    assume "\<exists>p q. c # cs = p @ k @ q"
    then obtain p q where pq: "c # cs = p @ k @ q" by blast
    show "includes_js (c # cs) k"
    proof (cases p)
      case Nil
      with pq have "startsWith (c # cs) k" by (auto simp: startsWith_iff)
      then show ?thesis by simp
    next
      case (Cons a p')
      with pq have "cs = p' @ k @ q" by simp
      then have "includes_js cs k" using Cons.IH by blast
      then show ?thesis by simp
    qed
  qed
qed

lemma includes_js_refl: "includes_js s s"
  using includes_js_iff [of s s] by (metis append_Nil append_Nil2)

lemma tags_distinct [simp]:
  "''title'' \<noteq> ''price''" "''title'' \<noteq> ''inventory''" "''title'' \<noteq> ''status''"
  "''price'' \<noteq> ''inventory''" "''price'' \<noteq> ''status''" "''inventory'' \<noteq> ''status''"
  by simp_all

section \<open>Facts about the lookup index\<close>

lemma indexVariant_apply:
  "indexVariant p v m k =
     (if (case sku v of None \<Rightarrow> False | Some s \<Rightarrow> s \<noteq> [] \<and> toLowerCase s = k)
      then Some p else m k)"
  by (simp add: indexVariant_def split: option.splits)

lemma fold_indexVariant:
  "fold (indexVariant p) vs m k =
     (if list_ex (\<lambda>v. case sku v of None \<Rightarrow> False | Some s \<Rightarrow> s \<noteq> [] \<and> toLowerCase s = k) vs
      then Some p else m k)"
proof (induction vs arbitrary: m)
  case Nil
  show ?case by simp
next
  case (Cons v vs)
  define r where "r = indexVariant p v m k"
  have r: "r = (if (case sku v of None \<Rightarrow> False | Some s \<Rightarrow> s \<noteq> [] \<and> toLowerCase s = k)
                then Some p else m k)"
    unfolding r_def by (rule indexVariant_apply)
  have "fold (indexVariant p) (v # vs) m k = fold (indexVariant p) vs (indexVariant p v m) k"
    by simp
  also have "\<dots> =
     (if list_ex (\<lambda>v. case sku v of None \<Rightarrow> False | Some s \<Rightarrow> s \<noteq> [] \<and> toLowerCase s = k) vs
      then Some p else r)"
    unfolding r_def by (rule Cons.IH)
  finally show ?case
    using r by simp
qed

lemma bySku_indexProduct:
  "existingProductsBySku (indexProduct p idx) k =
     (if hasSkuKey p k then Some p else existingProductsBySku idx k)"
  by (simp add: indexProduct_def hasSkuKey_def fold_indexVariant split: option.splits)

lemma byTitle_indexProduct:
  "existingProductsByTitle (indexProduct p idx) k =
     (if toLowerCase (title p) = k then Some p else existingProductsByTitle idx k)"
  by (simp add: indexProduct_def)

lemma bySku_fold:
  "existingProductsBySku (fold indexProduct ps idx) k =
     (case lastWith (\<lambda>p. hasSkuKey p k) ps of
        Some p \<Rightarrow> Some p
      | None \<Rightarrow> existingProductsBySku idx k)"
proof (induction ps arbitrary: idx)
  case Nil
  show ?case by simp
next
  case (Cons p ps)
  show ?case
    by (simp add: Cons.IH bySku_indexProduct split: option.splits)
qed

lemma byTitle_fold:
  "existingProductsByTitle (fold indexProduct ps idx) k =
     (case lastWith (\<lambda>p. toLowerCase (title p) = k) ps of
        Some p \<Rightarrow> Some p
      | None \<Rightarrow> existingProductsByTitle idx k)"
proof (induction ps arbitrary: idx)
  case Nil
  show ?case by simp
next
  case (Cons p ps)
  show ?case
    by (simp add: Cons.IH byTitle_indexProduct split: option.splits)
qed

lemma bySku_buildIndex:
  "existingProductsBySku (buildIndex ps) k = lastWith (\<lambda>p. hasSkuKey p k) ps"
  by (simp add: buildIndex_def bySku_fold split: option.splits)

lemma byTitle_buildIndex:
  "existingProductsByTitle (buildIndex ps) k = lastWith (\<lambda>p. toLowerCase (title p) = k) ps"
  by (simp add: buildIndex_def byTitle_fold split: option.splits)

lemma lastWith_Some: "lastWith P xs = Some x \<Longrightarrow> x \<in> set xs \<and> P x"
  by (induction xs) (auto split: option.splits if_splits)

lemma lastWith_None: "lastWith P xs = None \<longleftrightarrow> (\<forall>x\<in>set xs. \<not> P x)"
  by (induction xs) (auto split: option.splits)

section \<open>Facts about the batch executors\<close>

lemma fold_zip_map:
  "fold (\<lambda>(x, y). g x y) (zip xs (map f xs)) acc = fold (\<lambda>x. g x (f x)) xs acc"
  by (induction xs arbitrary: acc) simp_all

lemma processBatchDirect_fold:
  "processBatchDirect env items dry =
     fold (directStep env dry) items
       \<lparr>d_total = length items, d_created = 0, d_errors = 0, d_errorDetails = []\<rparr>"
proof -
  have "(\<lambda>x. recordDirect x (directPromise env dry x)) = directStep env dry"
    by (rule ext)+ (simp add: directStep_def)
  then show ?thesis
    by (simp add: processBatchDirect_def Let_def fold_zip_map)
qed

lemma parallel_fold:
  "processBatchParallelWithUpdates env batch r False = fold (parallelStep env) batch r"
proof -
  have "(\<lambda>x. recordParallel x (parallelPromise env False x)) = parallelStep env"
    by (rule ext)+ (simp add: parallelStep_def)
  then show ?thesis
    by (simp add: processBatchParallelWithUpdates_def Let_def fold_zip_map)
qed

lemma runItem_live_type:
  "runItem env False item = Inr (OpSuccess t p) \<Longrightarrow> t = ''created'' \<or> t = ''updated''"
  by (auto simp: runItem_def processCreateItem_def processUpdateItem_def
      split: workItem.splits sum.splits)

lemma runItem_live_value:
  "runItem env False item \<noteq> Inr (OpFailure e l)"
  by (auto simp: runItem_def processCreateItem_def processUpdateItem_def
      split: workItem.splits sum.splits)

lemma parallelStep_split:
  "created (parallelStep env item r)
     = created r + created (processBatchParallelWithUpdates env [item] noResults False)"
  "updated (parallelStep env item r)
     = updated r + updated (processBatchParallelWithUpdates env [item] noResults False)"
  "errors (parallelStep env item r)
     = errors r + errors (processBatchParallelWithUpdates env [item] noResults False)"
  "errorDetails (parallelStep env item r)
     = errorDetails r @ errorDetails (processBatchParallelWithUpdates env [item] noResults False)"
  "skipped (parallelStep env item r) = skipped r"
  "total (parallelStep env item r) = total r"
  by (simp_all add: parallel_fold parallelStep_def recordParallel_def noResults_def
        split: settled.splits opValue.splits)

lemma parallel_single_count:
  "created (processBatchParallelWithUpdates env [item] noResults False)
   + updated (processBatchParallelWithUpdates env [item] noResults False)
   + errors (processBatchParallelWithUpdates env [item] noResults False) = 1"
proof (cases "runItem env False item")
  case (Inl message)
  then show ?thesis
    by (simp add: parallel_fold parallelStep_def recordParallel_def parallelPromise_def noResults_def)
next
  case (Inr v)
  show ?thesis
  proof (cases v)
    case (OpSuccess t p)
    with Inr runItem_live_type [of env item t p] show ?thesis
      by (auto simp: parallel_fold parallelStep_def recordParallel_def parallelPromise_def
          noResults_def)
  next
    case (OpFailure e l)
    with Inr runItem_live_value [of env item e l] show ?thesis by simp
  qed
qed

lemma parallel_fold_tally:
  "created (fold (parallelStep env) batch r)
     = created r + (\<Sum>i\<leftarrow>batch. created (processBatchParallelWithUpdates env [i] noResults False))"
  "updated (fold (parallelStep env) batch r)
     = updated r + (\<Sum>i\<leftarrow>batch. updated (processBatchParallelWithUpdates env [i] noResults False))"
  "errors (fold (parallelStep env) batch r)
     = errors r + (\<Sum>i\<leftarrow>batch. errors (processBatchParallelWithUpdates env [i] noResults False))"
  "errorDetails (fold (parallelStep env) batch r)
     = errorDetails r @
       concat (map (\<lambda>i. errorDetails (processBatchParallelWithUpdates env [i] noResults False)) batch)"
  "skipped (fold (parallelStep env) batch r) = skipped r"
  "total (fold (parallelStep env) batch r) = total r"
  by (induction batch arbitrary: r) (simp_all add: parallelStep_split)

lemma parallel_single_sum:
  "(\<Sum>i\<leftarrow>batch. created (processBatchParallelWithUpdates env [i] noResults False))
   + (\<Sum>i\<leftarrow>batch. updated (processBatchParallelWithUpdates env [i] noResults False))
   + (\<Sum>i\<leftarrow>batch. errors (processBatchParallelWithUpdates env [i] noResults False))
   = length batch"
proof (induction batch)
  case Nil
  show ?case by simp
next
  case (Cons i batch)
  then show ?case using parallel_single_count [of env i] by simp
qed

lemma directPromise_fulfils: "\<exists>v. directPromise env dry c = Fulfilled v"
  by (simp add: directPromise_def split: sum.splits)

lemma parallelPromise_fulfils: "\<exists>v. parallelPromise env dry i = Fulfilled v"
  by (simp add: parallelPromise_def split: sum.splits)

lemma directStep_live:
  "d_created (directStep env False c r)
     = d_created r + (if isl (createOutcome env c) then 0 else 1)"
  "d_errors (directStep env False c r)
     = d_errors r + (if isl (createOutcome env c) then 1 else 0)"
  "d_errorDetails (directStep env False c r)
     = d_errorDetails r @ failureOf (csvLabel c) (createOutcome env c)"
  "d_total (directStep env False c r) = d_total r"
  by (simp_all add: directStep_def recordDirect_def directPromise_def createOutcome_def
        failureOf_def csvLabel_def split: sum.splits)

lemma direct_fold_live:
  "d_created (fold (directStep env False) items r)
     = d_created r + length (filter (\<lambda>c. \<not> isl (createOutcome env c)) items)"
  "d_errors (fold (directStep env False) items r)
     = d_errors r + length (filter (\<lambda>c. isl (createOutcome env c)) items)"
  "d_errorDetails (fold (directStep env False) items r)
     = d_errorDetails r @ concat (map (\<lambda>c. failureOf (csvLabel c) (createOutcome env c)) items)"
  "d_total (fold (directStep env False) items r) = d_total r"
  by (induction items arbitrary: r) (simp_all add: directStep_live)

lemma directStep_dry:
  "directStep env True c r = r\<lparr>d_created := d_created r + 1\<rparr>"
  by (simp add: directStep_def recordDirect_def directPromise_def)

lemma direct_fold_dry:
  "fold (directStep env True) items r = r\<lparr>d_created := d_created r + length items\<rparr>"
  by (induction items arbitrary: r) (simp_all add: directStep_dry)

lemma parallelStep_live:
  "created (parallelStep env i r)
     = created r + (if isCreateItem i \<and> \<not> isl (workOutcome env i) then 1 else 0)"
  "updated (parallelStep env i r)
     = updated r + (if \<not> isCreateItem i \<and> \<not> isl (workOutcome env i) then 1 else 0)"
  "errors (parallelStep env i r) = errors r + (if isl (workOutcome env i) then 1 else 0)"
  "errorDetails (parallelStep env i r)
     = errorDetails r @ failureOf (csvLabel (workCsvItem i)) (workOutcome env i)"
  "createdProducts (parallelStep env i r)
     = createdProducts r @ (if isCreateItem i then storedOf (workOutcome env i) else [])"
  "updatedProducts (parallelStep env i r)
     = updatedProducts r @ (if isCreateItem i then [] else storedOf (workOutcome env i))"
  by (cases i; simp add: parallelStep_def recordParallel_def parallelPromise_def runItem_def
        processCreateItem_def processUpdateItem_def workOutcome_def createOutcome_def
        failureOf_def storedOf_def csvLabel_def split: sum.splits)+

lemma parallel_fold_live:
  "created (fold (parallelStep env) batch r)
     = created r + length (filter (\<lambda>i. isCreateItem i \<and> \<not> isl (workOutcome env i)) batch)"
  "updated (fold (parallelStep env) batch r)
     = updated r + length (filter (\<lambda>i. \<not> isCreateItem i \<and> \<not> isl (workOutcome env i)) batch)"
  "errors (fold (parallelStep env) batch r)
     = errors r + length (filter (\<lambda>i. isl (workOutcome env i)) batch)"
  "errorDetails (fold (parallelStep env) batch r)
     = errorDetails r @
       concat (map (\<lambda>i. failureOf (csvLabel (workCsvItem i)) (workOutcome env i)) batch)"
  "createdProducts (fold (parallelStep env) batch r)
     = createdProducts r @
       concat (map (\<lambda>i. if isCreateItem i then storedOf (workOutcome env i) else []) batch)"
  "updatedProducts (fold (parallelStep env) batch r)
     = updatedProducts r @
       concat (map (\<lambda>i. if isCreateItem i then [] else storedOf (workOutcome env i)) batch)"
  by (induction batch arbitrary: r) (simp_all add: parallelStep_live)

lemma parallel_fold_dry_eq:
  "processBatchParallelWithUpdates env batch r True = fold (dryStep env) batch r"
proof -
  have "(\<lambda>x. recordParallel x (parallelPromise env True x)) = dryStep env"
    by (rule ext)+ (simp add: dryStep_def)
  then show ?thesis
    by (simp add: processBatchParallelWithUpdates_def Let_def fold_zip_map)
qed

lemma dryStep_tally:
  "created (dryStep env i r) = created r"
  "updated (dryStep env i r) = updated r"
  "errors (dryStep env i r)
     = errors r + (if isCreateItem i \<and> isl (mapCSVToShopifyProduct env (workCsvItem i)) then 1 else 0)"
  "errorDetails (dryStep env i r)
     = errorDetails r @
       (if isCreateItem i
        then failureOf (csvLabel (workCsvItem i)) (mapCSVToShopifyProduct env (workCsvItem i))
        else [])"
  by (cases i; simp add: dryStep_def recordParallel_def parallelPromise_def runItem_def
        processCreateItem_def processUpdateItem_def failureOf_def csvLabel_def
        split: sum.splits)+

lemma dry_fold_tally:
  "created (fold (dryStep env) batch r) = created r"
  "updated (fold (dryStep env) batch r) = updated r"
  "errors (fold (dryStep env) batch r)
     = errors r + length (filter (\<lambda>i. isCreateItem i
           \<and> isl (mapCSVToShopifyProduct env (workCsvItem i))) batch)"
  "errorDetails (fold (dryStep env) batch r)
     = errorDetails r @
       concat (map (\<lambda>i. if isCreateItem i
                         then failureOf (csvLabel (workCsvItem i))
                                (mapCSVToShopifyProduct env (workCsvItem i))
                         else []) batch)"
  by (induction batch arbitrary: r) (simp_all add: dryStep_tally)

text \<open>A batch of three with one failing item: the two siblings are created, the
  failure is recorded under its own SKU.\<close>

lemma batch_with_one_failure:
  "processBatchDirect flakyEnv [itemNamed ''A'', itemNamed ''BAD'', itemNamed ''C''] False
     = \<lparr>d_total = 3, d_created = 2, d_errors = 1,
        d_errorDetails = [(''BAD'', ''rejected by remote'')]\<rparr>"
  by code_simp

lemma parallel_batch_with_one_failure:
  "processBatchParallelWithUpdates flakyEnv
     [CreateItem (itemNamed ''A''), CreateItem (itemNamed ''BAD''), CreateItem (itemNamed ''C'')]
     noResults False
   = \<lparr>total = 0, created = 2, updated = 0, skipped = 0, errors = 1,
      createdProducts =
        [Stored \<lparr>product_id = 7, title = ''A'', status = Some ''draft'', variants = None\<rparr>,
         Stored \<lparr>product_id = 7, title = ''C'', status = Some ''draft'', variants = None\<rparr>],
      updatedProducts = [],
      errorDetails = [(''BAD'', ''rejected by remote'')]\<rparr>"
  by code_simp

section \<open>Facts about the batch scheduler\<close>













lemma categorize_fold_disabled:
  "fold (categorizeStep env bySku byTitle False) csvData acc =
     acc\<lparr>productsToCreate := productsToCreate acc @
            filter (\<lambda>c. findExistingProduct bySku byTitle c = None) csvData\<rparr>"
proof (induction csvData arbitrary: acc)
  case Nil
  show ?case by simp
next
  case (Cons c cs)
  have step: "categorizeStep env bySku byTitle False c acc =
      (if findExistingProduct bySku byTitle c = None
       then acc\<lparr>productsToCreate := productsToCreate acc @ [c]\<rparr> else acc)"
    by (simp add: categorizeStep_def split: option.splits)
  show ?case
    by (simp add: Cons.IH step)
qed

section \<open>Facts about a whole run\<close>

text \<open>
  In a live parallel run with a positive batch size and updates enabled,
  \<open>processProductsFromCSV\<close> returns, never touches \<open>skipped\<close>, and its buckets sum
  to the number of rows that needed work, not to the number of rows.
\<close>

lemma categorize_fold_counts:
  "length (productsToCreate (fold (categorizeStep env bySku byTitle True) csvData acc))
     + length (productsToUpdate (fold (categorizeStep env bySku byTitle True) csvData acc))
   = length (productsToCreate acc) + length (productsToUpdate acc)
     + length (filter (needsWork env bySku byTitle) csvData)"
proof (induction csvData arbitrary: acc)
  case Nil
  show ?case by simp
next
  case (Cons c cs)
  have "length (productsToCreate (categorizeStep env bySku byTitle True c acc))
     + length (productsToUpdate (categorizeStep env bySku byTitle True c acc))
   = length (productsToCreate acc) + length (productsToUpdate acc)
     + (if needsWork env bySku byTitle c then 1 else 0)"
    by (simp add: categorizeStep_def needsWork_def Let_def split: option.splits)
  then show ?case
    by (simp add: Cons.IH)
qed

lemma processBatches_tally:
  assumes "0 < opt_batchSize options" and "opt_parallelBatch options" and "\<not> opt_dryRun options"
  shows "\<exists>r'. processBatches env options work i r = Some r'
           \<and> skipped r' = skipped r \<and> total r' = total r
           \<and> created r' + updated r' + errors r'
              = created r + updated r + errors r + (length work - i)"
proof (induction "length work - i" arbitrary: i r rule: less_induct)
  case less
  let ?B = "opt_batchSize options"
  show ?case
  proof (cases "i < length work")
    case False
    then have "processBatches env options work i r = Some r"
      by (subst processBatches.simps) simp
    with False show ?thesis by simp
  next
    case True
    define r1 where "r1 = processBatchParallelWithUpdates env (slice i (i + ?B) work) r False"
    have unfold: "processBatches env options work i r = processBatches env options work (i + ?B) r1"
      using True assms(2,3)
      by (subst processBatches.simps) (simp add: Let_def r1_def)
    have len: "length (slice i (i + ?B) work) = min ?B (length work - i)"
      by (simp add: slice_def min.commute)
    have t1: "created r1 + updated r1 + errors r1
        = created r + updated r + errors r + min ?B (length work - i)"
      using parallel_single_sum [of env "slice i (i + ?B) work"] len
      by (simp add: r1_def parallel_fold parallel_fold_tally)
    have s1: "skipped r1 = skipped r" "total r1 = total r"
      by (simp_all add: r1_def parallel_fold parallel_fold_tally)
    from True assms(1) have "length work - (i + ?B) < length work - i" by simp
    then obtain r' where r': "processBatches env options work (i + ?B) r1 = Some r'"
      and "skipped r' = skipped r1" "total r' = total r1"
      and "created r' + updated r' + errors r'
              = created r1 + updated r1 + errors r1 + (length work - (i + ?B))"
      using less.hyps by blast
    with t1 s1 True have "skipped r' = skipped r \<and> total r' = total r
           \<and> created r' + updated r' + errors r'
              = created r + updated r + errors r + (length work - i)"
      by (auto simp: min_def)
    with unfold r' show ?thesis by simp
  qed
qed

lemma run_tally:
  assumes "0 < opt_batchSize options" and "opt_parallelBatch options" and "\<not> opt_dryRun options"
    and "opt_enableUpdates options"
  shows "\<exists>r. processProductsFromCSV env csvData remote options = Some r
           \<and> total r = length csvData \<and> skipped r = 0
           \<and> created r + updated r + skipped r + errors r
              = length (filter (needsWork env (existingProductsBySku (buildIndex remote))
                                  (existingProductsByTitle (buildIndex remote))) csvData)"
proof -
  let ?bySku = "existingProductsBySku (buildIndex remote)"
  let ?byTitle = "existingProductsByTitle (buildIndex remote)"
  let ?cat = "categorizeProducts env csvData ?bySku ?byTitle True"
  let ?work = "map CreateItem (productsToCreate ?cat) @
            map (\<lambda>(csvItem, existingProduct, chs). UpdateItem csvItem existingProduct chs)
              (productsToUpdate ?cat)"
  let ?r0 = "\<lparr>total = length csvData, created = 0, updated = 0, skipped = 0, errors = 0,
                     createdProducts = [], updatedProducts = [], errorDetails = []\<rparr> :: 'a runResults"
  have len: "length ?work = length (filter (needsWork env ?bySku ?byTitle) csvData)"
    using categorize_fold_counts [of env ?bySku ?byTitle csvData
        "\<lparr>productsToCreate = [], productsToUpdate = []\<rparr>"]
    by (simp add: categorizeProducts_def)
  obtain r where "processBatches env options ?work 0 ?r0 = Some r"
    and "skipped r = skipped ?r0" "total r = total ?r0"
    and "created r + updated r + errors r
              = created ?r0 + updated ?r0 + errors ?r0 + (length ?work - 0)"
    using processBatches_tally [OF assms(1-3), of env ?work 0 ?r0] by blast
  then show ?thesis
    using assms(4) len by (simp add: processProductsFromCSV_def Let_def)
qed

section \<open>The eligibility filter\<close>

text \<open>
  C2. The category-line check does not test containment in both directions. With the one
  configured line \<open>Pearls\<close>, the label \<open>Pearl\<close> is contained in the line, so the
  policy of the specification accepts it, and the check of the code rejects it.
\<close>

theorem line_check_counterexample:
  "lineMatches_spec \<lparr>msrpMin = 100, msrpMax = 1000, productLines = [''Pearls'']\<rparr>
     (emptyItem\<lparr>ProductLine := Some ''Pearl''\<rparr>)
   \<and> \<not> hasMatchingProductLine \<lparr>msrpMin = 100, msrpMax = 1000, productLines = [''Pearls'']\<rparr>
     (emptyItem\<lparr>ProductLine := Some ''Pearl''\<rparr>)"
  by code_simp

text \<open>
  C2, as the code has it. The check succeeds exactly when the label of the record,
  lower-cased and trimmed, contains some configured line, lower-cased (and not trimmed), as
  a contiguous substring; equality is the case of an empty prefix and suffix.
\<close>

theorem line_check_one_direction:
  "hasMatchingProductLine crit product \<longleftrightarrow>
     (\<exists>line\<in>set (productLines crit). \<exists>p q.
        trim (toLowerCase (orEmpty (ProductLine product))) = p @ toLowerCase line @ q)"
proof -
  have "\<And>s k. (s = k \<or> includes_js s k) = includes_js s k"
    using includes_js_refl by auto
  then show ?thesis
    by (simp add: hasMatchingProductLine_def Let_def list_ex_iff includes_js_iff)
qed

text \<open>
  C10. A record whose Status, lower-cased and trimmed, is \<open>discontinued\<close> is rejected by
  \<open>ProductProcessor.filterProducts\<close> whatever the price parser returns, whatever the
  criteria are and whatever the other fields hold: the status check is the first one and
  returns on its own.
\<close>

theorem discontinued_rejected:
  assumes "trim (toLowerCase (orEmpty (Status product))) = ''discontinued''"
  shows "\<not> keepProduct parseFloat crit product
       \<and> product \<notin> set (filterProducts parseFloat crit products)"
  using assms by (simp add: keepProduct_def filterProducts_def)

theorem discontinued_rejected_witness:
  "trim (toLowerCase (orEmpty (Status (emptyItem\<lparr>Status := Some '' Discontinued ''\<rparr>))))
     = ''discontinued''
   \<and> \<not> keepProduct (\<lambda>_. Num 500) \<lparr>msrpMin = 100, msrpMax = 1000, productLines = [''Pearls'']\<rparr>
        (emptyItem\<lparr>Status := Some '' Discontinued ''\<rparr>)
   \<and> emptyItem\<lparr>Status := Some '' Discontinued ''\<rparr>
        \<notin> set (filterProducts (\<lambda>_. Num 500)
            \<lparr>msrpMin = 100, msrpMax = 1000, productLines = [''Pearls'']\<rparr>
            [emptyItem\<lparr>Status := Some '' Discontinued ''\<rparr>])"
proof -
  have h: "trim (toLowerCase (orEmpty (Status (emptyItem\<lparr>Status := Some '' Discontinued ''\<rparr>))))
     = ''discontinued''"
    by code_simp
  show ?thesis using h discontinued_rejected [OF h] by blast
qed

section \<open>The taxonomy resolver\<close>

text \<open>
  C3. The resolver removes every backslash from the path before it splits, so a backslash
  never separates two segments. The path with the two segments \<open>Earrings\<close> and
  \<open>Rings\<close>, each led by a backslash, is the single segment \<open>earringsrings\<close> and
  resolves to Earrings (the first keyword of the vocabulary it contains), where the same
  path written with forward slashes, and the resolver of the specification on the path
  itself, match the leaf \<open>rings\<close> exactly and give Rings.
\<close>

theorem backslash_not_separator:
  "findBestCategoryMatch (backslash # ''Earrings'' @ backslash # ''Rings'')
     = Some ''gid://shopify/TaxonomyCategory/aa-6-6''
   \<and> findBestCategoryMatch ''/Earrings/Rings'' = Some ''gid://shopify/TaxonomyCategory/aa-6-9''
   \<and> resolvePath_spec (backslash # ''Earrings'' @ backslash # ''Rings'')
     = Some ''gid://shopify/TaxonomyCategory/aa-6-9''
   \<and> categoryTerms_of (cleanPath_of (backslash # ''Earrings'' @ backslash # ''Rings'')) = [''earringsrings'']"
  by code_simp

text \<open>
  C9. The two rope-chain paths (Jewelry, Necklaces, Chain Necklaces, Rope Chain Necklaces
  and Jewelry, Chains, Rope Chains, Rope Chain, each segment led by a backslash) resolve to
  the same category identifier, the one of the necklace and chain keywords, and both by a
  keyword hit, not by the default. The resolver is a function of the path and of the fixed
  vocabulary list, so a repeated call returns the same identifier.
\<close>

theorem rope_chain_paths_same_category:
  "getCategoryId (emptyItem\<lparr>Categories := Some ropeChainNecklaces\<rparr>)
     = getCategoryId (emptyItem\<lparr>Categories := Some ropeChain\<rparr>)
   \<and> findBestCategoryMatch ropeChainNecklaces = Some ''gid://shopify/TaxonomyCategory/aa-6-8''
   \<and> findBestCategoryMatch ropeChain = Some ''gid://shopify/TaxonomyCategory/aa-6-8''
   \<and> map_of categoryMap ''necklace'' = Some ''gid://shopify/TaxonomyCategory/aa-6-8''
   \<and> map_of categoryMap ''chain'' = Some ''gid://shopify/TaxonomyCategory/aa-6-8''"
  by code_simp

section \<open>The reconciliation index and the diff\<close>

text \<open>
  C4. For a row with a non-empty identifier \<open>s\<close> and the index built from the remote
  records: the lookup returns the last remote record that carries the lower-cased
  identifier on one of its variants, if there is one, and only otherwise what the
  display-name map holds for the lower-cased title. So when some remote record matches by
  identifier, the row is paired with an identifier-matched record whatever the
  display-name map contains.
\<close>

theorem identifier_lookup_wins:
  assumes "Item csvItem = Some s" and "s \<noteq> []"
  shows "findExistingProduct (existingProductsBySku (buildIndex remote)) byTitle csvItem =
           (case lastWith (\<lambda>p. hasSkuKey p (toLowerCase s)) remote of
              Some q \<Rightarrow> Some q
            | None \<Rightarrow>
                (if toLowerCase (orEmpty (orElse (Description csvItem) (Item csvItem))) \<noteq> []
                 then byTitle (toLowerCase (orEmpty (orElse (Description csvItem) (Item csvItem))))
                 else None))
         \<and> ((\<exists>p\<in>set remote. hasSkuKey p (toLowerCase s)) \<longrightarrow>
              (\<exists>q\<in>set remote. hasSkuKey q (toLowerCase s) \<and>
                 (\<forall>byTitle'. findExistingProduct (existingProductsBySku (buildIndex remote))
                                byTitle' csvItem = Some q)))"
proof -
  let ?k = "toLowerCase s"
  have "s = [] \<longleftrightarrow> ?k = []" by (simp add: toLowerCase_def)
  with assms have tr: "truthy (map_option toLowerCase (Item csvItem))"
    and oe: "orEmpty (map_option toLowerCase (Item csvItem)) = ?k"
    by (simp_all add: truthy_def orEmpty_def)
  have eq: "\<And>bt. findExistingProduct (existingProductsBySku (buildIndex remote)) bt csvItem =
           (case lastWith (\<lambda>p. hasSkuKey p ?k) remote of
              Some q \<Rightarrow> Some q
            | None \<Rightarrow>
                (if toLowerCase (orEmpty (orElse (Description csvItem) (Item csvItem))) \<noteq> []
                 then bt (toLowerCase (orEmpty (orElse (Description csvItem) (Item csvItem))))
                 else None))"
    using tr oe by (auto simp: findExistingProduct_def Let_def bySku_buildIndex split: option.splits)
  have "\<exists>q\<in>set remote. hasSkuKey q ?k \<and>
          (\<forall>bt. findExistingProduct (existingProductsBySku (buildIndex remote)) bt csvItem = Some q)"
    if "\<exists>p\<in>set remote. hasSkuKey p ?k"
  proof -
    from that have "lastWith (\<lambda>p. hasSkuKey p ?k) remote \<noteq> None"
      by (simp add: lastWith_None)
    then obtain q where q: "lastWith (\<lambda>p. hasSkuKey p ?k) remote = Some q" by blast
    then have "q \<in> set remote \<and> hasSkuKey q ?k" using lastWith_Some by fastforce
    moreover have "\<forall>bt. findExistingProduct (existingProductsBySku (buildIndex remote)) bt csvItem = Some q"
      using eq q by simp
    ultimately show ?thesis by blast
  qed
  with eq show ?thesis by blast
qed

theorem identifier_lookup_wins_witness:
  "Item rowA = Some ''ab-1'' \<and> ''ab-1'' \<noteq> []
   \<and> hasSkuKey remoteA (toLowerCase ''ab-1'')
   \<and> existingProductsByTitle (buildIndex [remoteA, remoteB])
        (toLowerCase (orEmpty (orElse (Description rowA) (Item rowA)))) = Some remoteB
   \<and> findExistingProduct (existingProductsBySku (buildIndex [remoteA, remoteB]))
        (existingProductsByTitle (buildIndex [remoteA, remoteB])) rowA = Some remoteA"
proof -
  have h1: "Item rowA = Some ''ab-1''" by (simp add: rowA_def)
  have h2: "''ab-1'' \<noteq> []" by simp
  have h3: "hasSkuKey remoteA (toLowerCase ''ab-1'')" by code_simp
  have h4: "existingProductsByTitle (buildIndex [remoteA, remoteB])
        (toLowerCase (orEmpty (orElse (Description rowA) (Item rowA)))) = Some remoteB"
    by code_simp
  have h5: "lastWith (\<lambda>p. hasSkuKey p (toLowerCase ''ab-1'')) [remoteA, remoteB] = Some remoteA"
    by code_simp
  show ?thesis
    using identifier_lookup_wins [OF h1 h2, of "[remoteA, remoteB]"
        "existingProductsByTitle (buildIndex [remoteA, remoteB])"] h1 h3 h4 h5
    by simp
qed

text \<open>
  C5. An inventory count missing on the remote side is not compared as 0. When the key
  is absent: the row has 5 in stock and the remote record has no count, so the counts
  differ under the policy of the specification, and the diff reports no inventory change
  (and no change at all). When the count is \<open>null\<close>: the row has no quantity, so both
  counts are 0 under the policy of the specification, and the diff reports an inventory
  change.
\<close>

theorem absent_remote_inventory_counterexample:
  "inventoryDiffers_spec testEnv rowFive remoteNoStock
   \<and> ''inventory'' \<notin> set (changes (doesProductNeedUpdate testEnv rowFive remoteNoStock))
   \<and> \<not> hasChanges (doesProductNeedUpdate testEnv rowFive remoteNoStock)
   \<and> \<not> inventoryDiffers_spec testEnv rowNoQuantity remoteNullStock
   \<and> changes (doesProductNeedUpdate testEnv rowNoQuantity remoteNullStock) = [''inventory'']"
  by code_simp

text \<open>
  C5, as the code has it. The diff always returns, and it reports exactly: the title when
  the remote title differs from the row's title; the price when the first remote variant
  has a non-empty price that differs as a number from the row's price; the inventory when
  the first remote variant has a \<open>null\<close> count, or a count that differs from the row's
  count; the status when the remote status is not the row's normalised status. A quantity
  missing in the row counts as 0 and a missing price as \<open>0.00\<close>. On the remote side a
  price that is absent, \<open>null\<close> or empty is not compared, a count whose key is absent
  (or whose record has no first variant) is not compared, and a \<open>null\<close> count is
  always reported.
\<close>

theorem diff_fields_exact:
  "(''title'' \<in> set (changes (doesProductNeedUpdate env csvItem existingProduct))
      \<longleftrightarrow> title existingProduct \<noteq> csvTitle_of csvItem)
   \<and> (''price'' \<in> set (changes (doesProductNeedUpdate env csvItem existingProduct))
      \<longleftrightarrow> (\<exists>v s. firstVariant existingProduct = Some v \<and> price v = Some s \<and> s \<noteq> []
             \<and> strictNeq (jsParseFloat env s)
                  (jsParseFloat env (parsePrice env (orElse (MSRP csvItem) (ContractPrice csvItem))))))
   \<and> (''inventory'' \<in> set (changes (doesProductNeedUpdate env csvItem existingProduct))
      \<longleftrightarrow> (\<exists>v. firstVariant existingProduct = Some v
             \<and> (inventory_quantity v = JNull
                \<or> (\<exists>q. inventory_quantity v = JValue q
                       \<and> Num (of_int q) \<noteq> csvInventory_of env csvItem))))
   \<and> (''status'' \<in> set (changes (doesProductNeedUpdate env csvItem existingProduct))
      \<longleftrightarrow> status existingProduct \<noteq> Some (csvStatus_of csvItem))
   \<and> hasChanges (doesProductNeedUpdate env csvItem existingProduct)
      = (changes (doesProductNeedUpdate env csvItem existingProduct) \<noteq> [])
   \<and> csvInventory_of env (csvItem\<lparr>Qty_Avail := None\<rparr>) = Num 0
   \<and> parsePrice env None = ''0.00''"
  by (auto simp: doesProductNeedUpdate_def Let_def pushChange_def truthy_def orEmpty_def
        csvInventory_of_def parseField_def parsePrice_def firstInventory_def
      split: option.splits Option.bind_splits json.splits)

text \<open>
  C7. With updates disabled, \<open>categorizeProducts\<close> schedules no update at all, and
  schedules for creation exactly the rows that match no remote record: a matched row is
  neither created nor updated, whatever the diff would say.
\<close>

theorem updates_disabled_skips_matched:
  "categorizeProducts env csvData bySku byTitle False =
     \<lparr>productsToCreate = filter (\<lambda>c. findExistingProduct bySku byTitle c = None) csvData,
      productsToUpdate = []\<rparr>"
  by (simp add: categorizeProducts_def categorize_fold_disabled)

text \<open>
  C1. A row that matches a remote record and differs from it in no tracked field ends in
  no bucket: the run over that one row returns with \<open>total = 1\<close> and with created,
  updated, skipped and errors all 0, so the buckets sum to 0 and not to the one row that
  reached reconciliation. The run initialises \<open>skipped\<close> and reports it as the count of
  rows without changes, and no statement increments it.
\<close>

theorem unchanged_match_not_counted:
  "findExistingProduct (existingProductsBySku (buildIndex [remoteInStock]))
      (existingProductsByTitle (buildIndex [remoteInStock])) rowFive = Some remoteInStock
   \<and> \<not> hasChanges (doesProductNeedUpdate testEnv rowFive remoteInStock)
   \<and> processProductsFromCSV testEnv [rowFive] [remoteInStock] defaultOptions
     = Some \<lparr>total = 1, created = 0, updated = 0, skipped = 0, errors = 0,
          createdProducts = [], updatedProducts = [], errorDetails = []\<rparr>"
proof -
  have found: "findExistingProduct (existingProductsBySku (buildIndex [remoteInStock]))
      (existingProductsByTitle (buildIndex [remoteInStock])) rowFive = Some remoteInStock"
    by code_simp
  have same: "\<not> hasChanges (doesProductNeedUpdate testEnv rowFive remoteInStock)"
    by code_simp
  have cat: "categorizeProducts testEnv [rowFive] (existingProductsBySku (buildIndex [remoteInStock]))
      (existingProductsByTitle (buildIndex [remoteInStock])) True
      = \<lparr>productsToCreate = [], productsToUpdate = []\<rparr>"
    using found same by (simp add: categorizeProducts_def categorizeStep_def)
  have en: "opt_enableUpdates defaultOptions = True"
    by (simp add: defaultOptions_def)
  have loop: "\<And>r. processBatches testEnv defaultOptions [] 0 r = Some r"
    by (subst processBatches.simps) simp
  have "processProductsFromCSV testEnv [rowFive] [remoteInStock] defaultOptions
     = Some \<lparr>total = 1, created = 0, updated = 0, skipped = 0, errors = 0,
          createdProducts = [], updatedProducts = [], errorDetails = []\<rparr>"
    unfolding processProductsFromCSV_def Let_def
    by (simp add: cat loop en)
  with found same show ?thesis by simp
qed

section \<open>Batches\<close>

text \<open>
  C6. Every promise of a batch fulfils with a value of its own, in both executors and in
  both modes, so no item can reject the batch. In a live run the tally of
  \<open>processBatchDirect\<close> is fixed by the own operation of each row (payload builder, then
  create call): created counts the rows whose operation returned, errors the rows whose
  operation threw, and the error list holds one entry per failing row, under its own
  label and with its own message, in the order of the batch. The same holds of
  \<open>processBatchParallelWithUpdates\<close> with the create or update operation of each work
  item, for the counts, the error list and the lists of stored records. In a dry run no
  remote call is issued: \<open>processBatchDirect\<close> counts every row as created, and
  \<open>processBatchParallelWithUpdates\<close> (which the run never calls in that mode) records
  the rows whose payload builder threw and leaves created and updated as they are. In
  every case what is recorded for an item depends on that item alone.
\<close>

theorem batch_failure_isolation:
  "(\<forall>c. \<exists>v. directPromise env dry c = Fulfilled v)
   \<and> (\<forall>i. \<exists>v. parallelPromise env dry i = Fulfilled v)
   \<and> processBatchDirect env items True
       = \<lparr>d_total = length items, d_created = length items, d_errors = 0, d_errorDetails = []\<rparr>
   \<and> d_total (processBatchDirect env items False) = length items
   \<and> d_created (processBatchDirect env items False)
       = length (filter (\<lambda>c. \<not> isl (createOutcome env c)) items)
   \<and> d_errors (processBatchDirect env items False)
       = length (filter (\<lambda>c. isl (createOutcome env c)) items)
   \<and> d_errorDetails (processBatchDirect env items False)
       = concat (map (\<lambda>c. failureOf (csvLabel c) (createOutcome env c)) items)
   \<and> created (processBatchParallelWithUpdates env batch r False)
       = created r + length (filter (\<lambda>i. isCreateItem i \<and> \<not> isl (workOutcome env i)) batch)
   \<and> updated (processBatchParallelWithUpdates env batch r False)
       = updated r + length (filter (\<lambda>i. \<not> isCreateItem i \<and> \<not> isl (workOutcome env i)) batch)
   \<and> errors (processBatchParallelWithUpdates env batch r False)
       = errors r + length (filter (\<lambda>i. isl (workOutcome env i)) batch)
   \<and> errorDetails (processBatchParallelWithUpdates env batch r False)
       = errorDetails r @
         concat (map (\<lambda>i. failureOf (csvLabel (workCsvItem i)) (workOutcome env i)) batch)
   \<and> createdProducts (processBatchParallelWithUpdates env batch r False)
       = createdProducts r @
         concat (map (\<lambda>i. if isCreateItem i then storedOf (workOutcome env i) else []) batch)
   \<and> updatedProducts (processBatchParallelWithUpdates env batch r False)
       = updatedProducts r @
         concat (map (\<lambda>i. if isCreateItem i then [] else storedOf (workOutcome env i)) batch)
   \<and> created (processBatchParallelWithUpdates env batch r True) = created r
   \<and> updated (processBatchParallelWithUpdates env batch r True) = updated r
   \<and> errors (processBatchParallelWithUpdates env batch r True)
       = errors r + length (filter (\<lambda>i. isCreateItem i
             \<and> isl (mapCSVToShopifyProduct env (workCsvItem i))) batch)
   \<and> errorDetails (processBatchParallelWithUpdates env batch r True)
       = errorDetails r @
         concat (map (\<lambda>i. if isCreateItem i
                           then failureOf (csvLabel (workCsvItem i))
                                  (mapCSVToShopifyProduct env (workCsvItem i))
                           else []) batch)"
proof -
  have dry: "processBatchDirect env items True
       = \<lparr>d_total = length items, d_created = length items, d_errors = 0, d_errorDetails = []\<rparr>"
    by (simp add: processBatchDirect_fold direct_fold_dry)
  have live: "d_total (processBatchDirect env items False) = length items"
    "d_created (processBatchDirect env items False)
       = length (filter (\<lambda>c. \<not> isl (createOutcome env c)) items)"
    "d_errors (processBatchDirect env items False)
       = length (filter (\<lambda>c. isl (createOutcome env c)) items)"
    "d_errorDetails (processBatchDirect env items False)
       = concat (map (\<lambda>c. failureOf (csvLabel c) (createOutcome env c)) items)"
    by (simp_all add: processBatchDirect_fold direct_fold_live)
  show ?thesis
    using directPromise_fulfils [of env dry] parallelPromise_fulfils [of env dry] dry live
    by (simp add: parallel_fold parallel_fold_live parallel_fold_dry_eq dry_fold_tally)
qed



end
